theory Spec2Isabelle
  imports Main "HOL-Library.AList" "HOL-Library.DAList"
begin

section \<open>Data model\<close>

text \<open>
  The real-time layer of the chat backend: the in-process connection manager
  (\<^verbatim>\<open>websocket/manager.ts\<close>), the presence and routing tables kept in the shared store
  (\<^verbatim>\<open>redis/presence.ts\<close>, \<^verbatim>\<open>redis/socketRouter.ts\<close>) and the gateway that dispatches inbound
  frames (\<^verbatim>\<open>websocket/index.ts\<close>).

  Mutation is explicit state passing. The clock (\<^verbatim>\<open>Date.now()\<close>) is a parameter \<open>now\<close>,
  read once per call. The shared store is an in-memory state whose commands always
  complete; the model has no clock of its own, so a key that expired in the store is the
  same state as a key that was deleted.
\<close>

subsection \<open>Wire messages (\<^verbatim>\<open>websocket/types.ts\<close>)\<close>

record WebSocketData =
  userId :: string
  username :: string
  socketId :: string
  serverId :: string
  connectedAt :: int

datatype WSMessageType =
  message | new_message | new_reaction | presence | typing | receipt | error | ping | pong

datatype status = online | offline

text \<open>
  The payloads that the server builds. Application values that this layer only passes on
  (a stored message row, a reaction) are kept as opaque text. The \<^verbatim>\<open>isTyping\<close> field is
  copied from the inbound frame and may be absent there.
\<close>

datatype payload =
    EmptyPayload
  | PresencePayload string status int
  | TypingPayload string string "bool option"
  | ErrorPayload string string
  | NewMessagePayload string string
  | NewReactionPayload string string string

record WSMessage =
  msgType :: WSMessageType
  payload :: payload
  timestamp :: int

text \<open>
  A socket handle is a reference to a transport object; \<open>socket = None\<close> is the omitted
  optional argument of \<^verbatim>\<open>addConnection\<close>.
\<close>

type_synonym socket_ref = nat

record ConnectedSocket =
  data :: WebSocketData
  subscriptions :: "string set"
  socket :: "socket_ref option"

subsection \<open>The shared store\<close>

text \<open>
  Hashes hold string fields; a number is stored as its decimal text. \<open>ttls\<close> records the
  time-to-live last set on a key, \<open>published\<close> every message published on a channel,
  oldest first.
\<close>

datatype PresenceChange =
  PresenceChange (pc_userId: string) (pc_status: status) (pc_timestamp: int)
    (pc_metadata: "(string \<rightharpoonup> string) option")

datatype bus_message =
    PresenceChangeMsg PresenceChange
  | ServerEventMsg string string

record redis =
  hashes :: "string \<rightharpoonup> (string \<rightharpoonup> string)"
  ttls :: "string \<rightharpoonup> nat"
  sets :: "string \<Rightarrow> string set"
  published :: "(string \<times> bus_message) list"

fun decimal :: "nat \<Rightarrow> string" where
  "decimal n = (if n < 10 then [char_of (48 + n)]
                else decimal (n div 10) @ [char_of (48 + n mod 10)])"

declare decimal.simps [simp del]

definition String :: "int \<Rightarrow> string" where
  "String i = (if i < 0 then CHR ''-'' # decimal (nat (- i)) else decimal (nat i))"

definition hmset :: "redis \<Rightarrow> string \<Rightarrow> (string \<rightharpoonup> string) \<Rightarrow> redis" where
  "hmset r key flds =
     r\<lparr>hashes := (hashes r)(key \<mapsto>
          (case hashes r key of None \<Rightarrow> flds | Some h \<Rightarrow> h ++ flds))\<rparr>"

definition hset :: "redis \<Rightarrow> string \<Rightarrow> string \<Rightarrow> string \<Rightarrow> redis" where
  "hset r key field v = hmset r key [field \<mapsto> v]"

text \<open>\<^verbatim>\<open>hgetall\<close> of a missing key answers the empty object.\<close>

definition hgetall :: "redis \<Rightarrow> string \<Rightarrow> (string \<rightharpoonup> string)" where
  "hgetall r key = (case hashes r key of None \<Rightarrow> Map.empty | Some h \<Rightarrow> h)"

definition exists_key :: "redis \<Rightarrow> string \<Rightarrow> bool" where
  "exists_key r key = (hashes r key \<noteq> None)"

definition expire :: "redis \<Rightarrow> string \<Rightarrow> nat \<Rightarrow> redis" where
  "expire r key secs =
     (if exists_key r key then r\<lparr>ttls := (ttls r)(key \<mapsto> secs)\<rparr> else r)"

definition del :: "redis \<Rightarrow> string \<Rightarrow> redis" where
  "del r key = r\<lparr>hashes := (hashes r)(key := None), ttls := (ttls r)(key := None)\<rparr>"

definition sadd :: "redis \<Rightarrow> string \<Rightarrow> string \<Rightarrow> redis" where
  "sadd r key member = r\<lparr>sets := (sets r)(key := insert member (sets r key))\<rparr>"

definition srem :: "redis \<Rightarrow> string \<Rightarrow> string \<Rightarrow> redis" where
  "srem r key member = r\<lparr>sets := (sets r)(key := sets r key - {member})\<rparr>"

definition smembers :: "redis \<Rightarrow> string \<Rightarrow> string set" where
  "smembers r key = sets r key"

definition publish :: "redis \<Rightarrow> string \<Rightarrow> bus_message \<Rightarrow> redis" where
  "publish r channel msg = r\<lparr>published := published r @ [(channel, msg)]\<rparr>"

section \<open>Presence (\<^verbatim>\<open>redis/presence.ts\<close>)\<close>

definition PRESENCE_PREFIX :: string where
  "PRESENCE_PREFIX = ''presence''"

definition ONLINE_SET :: string where
  "ONLINE_SET = ''online_users''"

definition TTL :: nat where
  "TTL = 120"

definition presence_key :: "string \<Rightarrow> string" where
  "presence_key uid = PRESENCE_PREFIX @ '':'' @ uid"

definition publishPresenceChange ::
  "int \<Rightarrow> redis \<Rightarrow> string \<Rightarrow> status \<Rightarrow> (string \<rightharpoonup> string) option \<Rightarrow> redis" where
  "publishPresenceChange now r uid st metadata =
     publish r ''presence:changes'' (PresenceChangeMsg (PresenceChange uid st now metadata))"

text \<open>
  The stored object is \<^verbatim>\<open>{socketId, timestamp, ...metadata}\<close>: a field of the metadata
  overrides the one written before it.
\<close>

definition setOnline ::
  "int \<Rightarrow> redis \<Rightarrow> string \<Rightarrow> string \<Rightarrow> (string \<rightharpoonup> string) option \<Rightarrow> redis" where
  "setOnline now r uid sid metadata =
     (let key = presence_key uid;
          flds = [''socketId'' \<mapsto> sid, ''timestamp'' \<mapsto> String now]
                     ++ (case metadata of None \<Rightarrow> Map.empty | Some md \<Rightarrow> md);
          r1 = hmset r key flds;
          r2 = expire r1 key TTL;
          r3 = sadd r2 ONLINE_SET uid
      in publishPresenceChange now r3 uid online metadata)"

text \<open>
  \<^verbatim>\<open>current\<close> is always an object, so the guard \<^verbatim>\<open>current && current.socketId === socketId\<close>
  is the comparison of the stored field with the argument; an absent field is
  \<^verbatim>\<open>undefined\<close> and equals no string.
\<close>

definition setOffline :: "int \<Rightarrow> redis \<Rightarrow> string \<Rightarrow> string \<Rightarrow> redis" where
  "setOffline now r uid sid =
     (let key = presence_key uid;
          current = hgetall r key
      in if current ''socketId'' = Some sid then
           (let r1 = del r key;
                r2 = srem r1 ONLINE_SET uid
            in publishPresenceChange now r2 uid offline None)
         else r)"

definition isOnline :: "redis \<Rightarrow> string \<Rightarrow> bool" where
  "isOnline r uid = exists_key r (presence_key uid)"

definition getOnlineUsers :: "redis \<Rightarrow> string set" where
  "getOnlineUsers r = smembers r ONLINE_SET"

definition refreshSession :: "redis \<Rightarrow> string \<Rightarrow> redis" where
  "refreshSession r uid =
     (let key = presence_key uid
      in if exists_key r key then expire r key TTL else r)"

section \<open>Socket routing (\<^verbatim>\<open>redis/socketRouter.ts\<close>)\<close>

definition ROUTE_PREFIX :: string where
  "ROUTE_PREFIX = ''socket:route''"

definition route_key :: "string \<Rightarrow> string" where
  "route_key uid = ROUTE_PREFIX @ '':'' @ uid"

definition registerSocket :: "int \<Rightarrow> redis \<Rightarrow> string \<Rightarrow> string \<Rightarrow> string \<Rightarrow> redis" where
  "registerSocket now r uid sid srv =
     (let key = route_key uid;
          r1 = hmset r key
                 [''socketId'' \<mapsto> sid, ''serverId'' \<mapsto> srv, ''lastHeartbeat'' \<mapsto> String now]
      in expire r1 key 300)"

definition removeSocket :: "redis \<Rightarrow> string \<Rightarrow> string \<Rightarrow> redis" where
  "removeSocket r uid sid =
     (let key = route_key uid;
          current = hgetall r key
      in if current ''socketId'' = Some sid then del r key else r)"

definition publishToServer :: "redis \<Rightarrow> string \<Rightarrow> string \<Rightarrow> string \<Rightarrow> redis" where
  "publishToServer r srv event d = publish r (''server:'' @ srv) (ServerEventMsg event d)"

definition broadcastToAllServers :: "redis \<Rightarrow> string \<Rightarrow> string \<Rightarrow> redis" where
  "broadcastToAllServers r event d = publish r ''servers:broadcast'' (ServerEventMsg event d)"

section \<open>Connection manager (\<^verbatim>\<open>websocket/manager.ts\<close>)\<close>

text \<open>
  \<open>connections\<close> is the \<^verbatim>\<open>Map<string, ConnectedSocket>\<close>: keys are distinct and kept in
  insertion order, \<^verbatim>\<open>set\<close> of a present key replaces the value in place. \<open>wire\<close> lists the
  frames written to socket handles, oldest first. \<open>closed\<close> holds the handles that are no
  longer open: \<^verbatim>\<open>send\<close> on them throws, on every other handle it writes the frame.
\<close>

record world =
  connections :: "(string, ConnectedSocket) alist"
  thisServerId :: string
  store :: redis
  wire :: "(socket_ref \<times> WSMessage) list"
  closed :: "socket_ref set"

definition getServerId :: "world \<Rightarrow> string" where
  "getServerId w = thisServerId w"

definition addConnection ::
  "int \<Rightarrow> world \<Rightarrow> string \<Rightarrow> WebSocketData \<Rightarrow> socket_ref option \<Rightarrow> world" where
  "addConnection now w sid d sock =
     (let connectedSocket = \<lparr>data = d, subscriptions = {}, socket = sock\<rparr>;
          w1 = w\<lparr>connections := DAList.update sid connectedSocket (connections w)\<rparr>;
          w2 = w1\<lparr>store := setOnline now (store w1) (userId d) sid
                                (Some [''username'' \<mapsto> username d])\<rparr>
      in w2\<lparr>store := registerSocket now (store w2) (userId d) sid (thisServerId w2)\<rparr>)"

definition removeConnection :: "int \<Rightarrow> world \<Rightarrow> string \<Rightarrow> world" where
  "removeConnection now w sid =
     (case DAList.lookup (connections w) sid of
        None \<Rightarrow> w
      | Some connection \<Rightarrow>
          (let uid = userId (data connection);
               w1 = w\<lparr>store := setOffline now (store w) uid sid\<rparr>;
               w2 = w1\<lparr>store := removeSocket (store w1) uid sid\<rparr>
           in w2\<lparr>connections := DAList.delete sid (connections w2)\<rparr>))"

definition getConnection :: "world \<Rightarrow> string \<Rightarrow> ConnectedSocket option" where
  "getConnection w sid = DAList.lookup (connections w) sid"

definition getAllConnections :: "world \<Rightarrow> ConnectedSocket list" where
  "getAllConnections w = map snd (DAList.impl_of (connections w))"

definition getConnectionByUserId :: "world \<Rightarrow> string \<Rightarrow> ConnectedSocket option" where
  "getConnectionByUserId w uid =
     find (\<lambda>connection. userId (data connection) = uid) (getAllConnections w)"

definition subscribeToConversation :: "world \<Rightarrow> string \<Rightarrow> string \<Rightarrow> world" where
  "subscribeToConversation w sid cid =
     (case DAList.lookup (connections w) sid of
        None \<Rightarrow> w
      | Some connection \<Rightarrow>
          w\<lparr>connections := DAList.update sid
               (connection\<lparr>subscriptions := insert cid (subscriptions connection)\<rparr>)
               (connections w)\<rparr>)"

definition unsubscribeFromConversation :: "world \<Rightarrow> string \<Rightarrow> string \<Rightarrow> world" where
  "unsubscribeFromConversation w sid cid =
     (case DAList.lookup (connections w) sid of
        None \<Rightarrow> w
      | Some connection \<Rightarrow>
          w\<lparr>connections := DAList.update sid
               (connection\<lparr>subscriptions := subscriptions connection - {cid}\<rparr>)
               (connections w)\<rparr>)"

definition getConversationSubscribers :: "world \<Rightarrow> string \<Rightarrow> ConnectedSocket list" where
  "getConversationSubscribers w cid =
     filter (\<lambda>connection. cid \<in> subscriptions connection) (getAllConnections w)"

definition getConnectionCount :: "world \<Rightarrow> nat" where
  "getConnectionCount w = length (DAList.impl_of (connections w))"

definition getUserCount :: "world \<Rightarrow> nat" where
  "getUserCount w = card (set (map (\<lambda>connection. userId (data connection)) (getAllConnections w)))"

text \<open>The loop of \<^verbatim>\<open>broadcast\<close> visits every connection and its body is empty.\<close>

definition broadcast :: "world \<Rightarrow> WSMessage \<Rightarrow> world" where
  "broadcast w m = fold (\<lambda>connection w'. w') (getAllConnections w) w"

definition sendToSocket :: "world \<Rightarrow> string \<Rightarrow> WSMessage \<Rightarrow> bool \<times> world" where
  "sendToSocket w sid m =
     (case DAList.lookup (connections w) sid of
        None \<Rightarrow> (False, w)
      | Some connection \<Rightarrow>
          (case socket connection of
             None \<Rightarrow> (False, w)
           | Some s \<Rightarrow>
               if s \<in> closed w then (False, w)
               else (True, w\<lparr>wire := wire w @ [(s, m)]\<rparr>)))"

definition sendToUser :: "world \<Rightarrow> string \<Rightarrow> WSMessage \<Rightarrow> bool \<times> world" where
  "sendToUser w uid m =
     (case getConnectionByUserId w uid of
        None \<Rightarrow> (False, w)
      | Some connection \<Rightarrow> sendToSocket w (socketId (data connection)) m)"

text \<open>
  \<^verbatim>\<open>excludeUserId && subscriber.data.userId === excludeUserId\<close>: an omitted argument and the
  empty string are both falsy and exclude nobody.
\<close>

definition excluded :: "string option \<Rightarrow> string \<Rightarrow> bool" where
  "excluded excludeUserId uid =
     (case excludeUserId of None \<Rightarrow> False | Some u \<Rightarrow> u \<noteq> [] \<and> uid = u)"

definition sendToConversation ::
  "world \<Rightarrow> string \<Rightarrow> WSMessage \<Rightarrow> string option \<Rightarrow> nat \<times> world" where
  "sendToConversation w cid m excludeUserId =
     (let subscribers = getConversationSubscribers w cid
      in fold (\<lambda>subscriber (sent, w').
                 if excluded excludeUserId (userId (data subscriber)) then (sent, w')
                 else (case sendToSocket w' (socketId (data subscriber)) m of
                         (True, w'') \<Rightarrow> (sent + 1, w'')
                       | (False, w'') \<Rightarrow> (sent, w'')))
              subscribers (0, w))"

definition broadcastNewMessage :: "int \<Rightarrow> world \<Rightarrow> string \<Rightarrow> string \<Rightarrow> world" where
  "broadcastNewMessage now w cid msg =
     (let subscribers = getConversationSubscribers w cid;
          wsMessage = \<lparr>msgType = new_message, payload = NewMessagePayload cid msg,
                       timestamp = now\<rparr>
      in fold (\<lambda>subscriber w'. snd (sendToSocket w' (socketId (data subscriber)) wsMessage))
              subscribers w)"

definition broadcastNewReaction ::
  "int \<Rightarrow> world \<Rightarrow> string \<Rightarrow> string \<Rightarrow> string \<Rightarrow> world" where
  "broadcastNewReaction now w cid mid reaction =
     (let subscribers = getConversationSubscribers w cid;
          wsMessage = \<lparr>msgType = new_reaction, payload = NewReactionPayload cid mid reaction,
                       timestamp = now\<rparr>
      in fold (\<lambda>subscriber w'. snd (sendToSocket w' (socketId (data subscriber)) wsMessage))
              subscribers w)"

section \<open>Gateway (\<^verbatim>\<open>websocket/index.ts\<close>)\<close>

text \<open>
  The values that \<^verbatim>\<open>JSON.parse\<close> gives. A number is kept as the text that \<^verbatim>\<open>String\<close> gives
  for it; an object is the list of its own properties.
\<close>

datatype json =
    JNull
  | JBool bool
  | JNum string
  | JStr string
  | JArr "json list"
  | JObj "(string \<times> json) list"

text \<open>
  An inbound frame is text. \<^verbatim>\<open>JSON.parse\<close> is a parameter \<open>parse\<close> of the handler: \<open>None\<close>
  when it throws, otherwise the decoded value as the handler reads it. \<open>JsonNull\<close> is the
  value \<^verbatim>\<open>null\<close>, of which no property can be read. Of any other value the handler reads
  \<^verbatim>\<open>type\<close>, which may hold any value (\<open>None\<close> when the property is absent, as it is on a
  number, a string, a boolean or an array), and \<^verbatim>\<open>payload\<close> (\<open>None\<close> when absent or
  \<^verbatim>\<open>null\<close>, so that reading a property of it throws). The payload is read only in the cases
  \<open>subscribe\<close>, \<open>unsubscribe\<close> and \<open>typing\<close>, which read its \<^verbatim>\<open>conversationId\<close> and
  \<^verbatim>\<open>isTyping\<close>; these two are taken at their declared types.
\<close>

record in_payload =
  conversationId :: "string option"
  isTyping :: "bool option"

datatype frame = JsonNull | JsonValue "json option" "in_payload option"

datatype exn = SyntaxError | TypeError | SendError

definition sendMessage :: "world \<Rightarrow> socket_ref \<Rightarrow> WSMessage \<Rightarrow> exn + world" where
  "sendMessage w sock m =
     (if sock \<in> closed w then Inl SendError else Inr (w\<lparr>wire := wire w @ [(sock, m)]\<rparr>))"

definition close :: "world \<Rightarrow> socket_ref \<Rightarrow> world" where
  "close w sock = w\<lparr>closed := insert sock (closed w)\<rparr>"

text \<open>
  The conversion to text that a template applies to a value. An array is its elements
  joined by commas, \<^verbatim>\<open>null\<close> elements giving the empty text. An object is
  \<^verbatim>\<open>[object Object]\<close> unless it has a property \<^verbatim>\<open>toString\<close> of its own: a decoded property
  is never a function, the inherited \<^verbatim>\<open>valueOf\<close> answers the object itself, and the
  conversion throws.
\<close>

fun ToString :: "json \<Rightarrow> exn + string"
  and join :: "json list \<Rightarrow> exn + string" where
  "ToString JNull = Inr ''null''"
| "ToString (JBool b) = Inr (if b then ''true'' else ''false'')"
| "ToString (JNum t) = Inr t"
| "ToString (JStr t) = Inr t"
| "ToString (JArr xs) = join xs"
| "ToString (JObj props) =
     (if ''toString'' \<in> fst ` set props then Inl TypeError else Inr ''[object Object]'')"
| "join [] = Inr []"
| "join [x] = (if x = JNull then Inr [] else ToString x)"
| "join (x # y # ys) =
     (case (if x = JNull then Inr [] else ToString x) of
        Inl e \<Rightarrow> Inl e
      | Inr t \<Rightarrow> (case join (y # ys) of Inl e \<Rightarrow> Inl e | Inr ts \<Rightarrow> Inr (t @ '','' @ ts)))"

text \<open>The text that the template \<^verbatim>\<open>${msg.type}\<close> gives; an absent type is \<^verbatim>\<open>undefined\<close>.\<close>

definition type_text :: "json option \<Rightarrow> exn + string" where
  "type_text ty = (case ty of None \<Rightarrow> Inr ''undefined'' | Some v \<Rightarrow> ToString v)"

fun handleWebSocketMessage ::
  "int \<Rightarrow> world \<Rightarrow> socket_ref \<Rightarrow> frame \<Rightarrow> WebSocketData \<Rightarrow> exn + world" where
  "handleWebSocketMessage now w sock JsonNull d = Inl TypeError"
| "handleWebSocketMessage now w sock (JsonValue ty pl) d =
     (if ty = Some (JStr ''ping'') then
        sendMessage w sock \<lparr>msgType = pong, payload = EmptyPayload, timestamp = now\<rparr>
      else if ty = Some (JStr ''subscribe'') then
        (case pl of
           None \<Rightarrow> Inl TypeError
         | Some p \<Rightarrow>
             (case conversationId p of
                None \<Rightarrow> Inr w
              | Some cid \<Rightarrow>
                  if cid = [] then Inr w
                  else (let w1 = subscribeToConversation w (socketId d) cid
                        in Inr (w1\<lparr>store := refreshSession (store w1) (userId d)\<rparr>))))
      else if ty = Some (JStr ''unsubscribe'') then
        (case pl of
           None \<Rightarrow> Inl TypeError
         | Some p \<Rightarrow>
             (case conversationId p of
                None \<Rightarrow> Inr w
              | Some cid \<Rightarrow>
                  if cid = [] then Inr w
                  else Inr (unsubscribeFromConversation w (socketId d) cid)))
      else if ty = Some (JStr ''typing'') then
        (case pl of
           None \<Rightarrow> Inl TypeError
         | Some p \<Rightarrow>
             (case conversationId p of
                None \<Rightarrow> Inr w
              | Some cid \<Rightarrow>
                  if cid = [] then Inr w
                  else (let typingMsg = \<lparr>msgType = typing,
                                          payload = TypingPayload cid (userId d) (isTyping p),
                                          timestamp = now\<rparr>
                        in Inr (snd (sendToConversation w cid typingMsg (Some (userId d)))))))
      else
        (case type_text ty of
           Inl e \<Rightarrow> Inl e
         | Inr t \<Rightarrow>
             sendMessage w sock
               \<lparr>msgType = error,
                payload = ErrorPayload ''UNKNOWN_MESSAGE_TYPE'' (''Unknown message type: '' @ t),
                timestamp = now\<rparr>))"

text \<open>
  The \<^verbatim>\<open>message\<close> listener: whatever is thrown while decoding or dispatching is caught and
  answered with one error frame. With a store whose commands complete, no branch of the
  dispatcher throws after it has changed the state, so the catch block starts from the
  state before the frame. When the error frame itself cannot be written the listener ends
  there.
\<close>

definition on_message ::
  "(string \<Rightarrow> frame option) \<Rightarrow> int \<Rightarrow> world \<Rightarrow> socket_ref \<Rightarrow> WebSocketData \<Rightarrow> string \<Rightarrow> world" where
  "on_message parse now w sock d raw =
     (let attempt = (case parse raw of
                       None \<Rightarrow> Inl SyntaxError
                     | Some msg \<Rightarrow> handleWebSocketMessage now w sock msg d)
      in case attempt of
           Inr w' \<Rightarrow> w'
         | Inl e \<Rightarrow>
             (case sendMessage w sock
                     \<lparr>msgType = error,
                      payload = ErrorPayload ''MESSAGE_ERROR'' ''Failed to process message'',
                      timestamp = now\<rparr> of
                Inr w' \<Rightarrow> w'
              | Inl e' \<Rightarrow> w))"

definition on_close :: "int \<Rightarrow> world \<Rightarrow> string \<Rightarrow> world" where
  "on_close now w sid = removeConnection now w sid"

text \<open>
  The upgrade handler. \<open>auth\<close> is the token verifier (\<open>None\<close> when it throws), \<open>sid\<close> the
  \<^verbatim>\<open>uuidv4()\<close> drawn for the socket, \<open>token\<close> the query parameter.
\<close>

definition on_connect ::
  "(string \<Rightarrow> (string \<times> string) option) \<Rightarrow> int \<Rightarrow> world \<Rightarrow> string option \<Rightarrow> string \<Rightarrow>
   socket_ref \<Rightarrow> world" where
  "on_connect auth now w token sid sock =
     (case token of
        None \<Rightarrow> close w sock
      | Some t \<Rightarrow>
          if t = [] then close w sock
          else (case auth t of
                  None \<Rightarrow> close w sock
                | Some (uid, uname) \<Rightarrow>
                    (let d = \<lparr>userId = uid, username = uname, socketId = sid,
                              serverId = getServerId w, connectedAt = now\<rparr>;
                         w1 = addConnection now w sid d (Some sock)
                     in case sendMessage w1 sock
                               \<lparr>msgType = presence,
                                payload = PresencePayload (userId d) online now,
                                timestamp = now\<rparr> of
                          Inr w2 \<Rightarrow> w2
                        | Inl e \<Rightarrow> close w1 sock)))"

text \<open>The callback registered on the presence-change topic at startup.\<close>

definition on_presence_change :: "int \<Rightarrow> world \<Rightarrow> PresenceChange \<Rightarrow> world" where
  "on_presence_change now w pc =
     broadcast w \<lparr>msgType = presence,
                  payload = PresencePayload (pc_userId pc) (pc_status pc) (pc_timestamp pc),
                  timestamp = now\<rparr>"

section \<open>Vocabulary of the properties\<close>

subsection \<open>Sequences of registry calls\<close>

definition registry_keys :: "world \<Rightarrow> string set" where
  "registry_keys w = fst ` set (DAList.impl_of (connections w))"

datatype registry_call =
    Register string WebSocketData "socket_ref option"
  | Deregister string

fun apply_call :: "int \<Rightarrow> world \<Rightarrow> registry_call \<Rightarrow> world" where
  "apply_call now w (Register sid d sock) = addConnection now w sid d sock"
| "apply_call now w (Deregister sid) = removeConnection now w sid"

definition run_calls :: "int \<Rightarrow> world \<Rightarrow> registry_call list \<Rightarrow> world" where
  "run_calls now w calls = foldl (apply_call now) w calls"

text \<open>
  The specification's reading of a call sequence, written from its words and not from the
  code: the socket ids that are registered and not yet deregistered, starting from the
  set \<open>live\<close>. Deregistering an absent id changes nothing.
\<close>

fun spec_registered :: "string set \<Rightarrow> registry_call list \<Rightarrow> string set" where
  "spec_registered live [] = live"
| "spec_registered live (Register sid d sock # calls) = spec_registered (insert sid live) calls"
| "spec_registered live (Deregister sid # calls) = spec_registered (live - {sid}) calls"

subsection \<open>Fan-out\<close>

text \<open>
  The gateway registers every connection under the socket id that its own data carries;
  \<open>keys_match\<close> says so of a registry. A connection is \<open>deliverable\<close> when it has a socket
  handle and that handle is open. \<open>frames_to m cs\<close> is one frame \<open>m\<close> on the handle of each
  connection of \<open>cs\<close> that has one, in the order of \<open>cs\<close>.
\<close>

definition keys_match :: "world \<Rightarrow> bool" where
  "keys_match w = list_all (\<lambda>(k, c). socketId (data c) = k) (DAList.impl_of (connections w))"

definition deliverable :: "world \<Rightarrow> ConnectedSocket \<Rightarrow> bool" where
  "deliverable w c = (case socket c of None \<Rightarrow> False | Some s \<Rightarrow> s \<notin> closed w)"

definition frames_to :: "WSMessage \<Rightarrow> ConnectedSocket list \<Rightarrow> (socket_ref \<times> WSMessage) list" where
  "frames_to m cs = map (\<lambda>s. (s, m)) (List.map_filter socket cs)"

text \<open>
  The connections that a fan-out to conversation \<open>cid\<close> excluding user \<open>u\<close> is meant to
  reach: the deliverable subscribers of \<open>cid\<close> whose user is not \<open>u\<close>, in registry order.
\<close>

definition recipients :: "world \<Rightarrow> string \<Rightarrow> string \<Rightarrow> ConnectedSocket list" where
  "recipients w cid u =
     filter (\<lambda>c. userId (data c) \<noteq> u \<and> deliverable w c) (getConversationSubscribers w cid)"

text \<open>
  The states that the gateway and its collaborators produce from an empty registry: sockets
  are accepted, frames arrive on registered sockets, sockets close, handlers broadcast, and
  presence changes arrive from the bus.
\<close>

inductive reachable ::
  "(string \<Rightarrow> (string \<times> string) option) \<Rightarrow> (string \<Rightarrow> frame option) \<Rightarrow> world \<Rightarrow> bool"
  for auth :: "string \<Rightarrow> (string \<times> string) option" and parse :: "string \<Rightarrow> frame option"
  where
    start: "connections w = DAList.empty \<Longrightarrow> reachable auth parse w"
  | connect: "reachable auth parse w \<Longrightarrow> reachable auth parse (on_connect auth now w token sid sock)"
  | frame: "reachable auth parse w \<Longrightarrow> DAList.lookup (connections w) sid = Some c \<Longrightarrow>
            socket c = Some sock \<Longrightarrow>
            reachable auth parse (on_message parse now w sock (data c) raw)"
  | closing: "reachable auth parse w \<Longrightarrow> reachable auth parse (on_close now w sid)"
  | new_msg: "reachable auth parse w \<Longrightarrow> reachable auth parse (broadcastNewMessage now w cid msg)"
  | new_react: "reachable auth parse w \<Longrightarrow>
                reachable auth parse (broadcastNewReaction now w cid mid reaction)"
  | presence_change: "reachable auth parse w \<Longrightarrow> reachable auth parse (on_presence_change now w pc)"

subsection \<open>Inbound frames\<close>

text \<open>
  The values of \<^verbatim>\<open>type\<close> that the dispatcher has a case for. The \<^verbatim>\<open>switch\<close> compares
  strictly, so only these four strings reach a case; every other value, a string or not,
  reaches \<^verbatim>\<open>default\<close>.
\<close>

definition known_types :: "json option set" where
  "known_types = {Some (JStr ''ping''), Some (JStr ''subscribe''), Some (JStr ''unsubscribe''),
                  Some (JStr ''typing'')}"

subsection \<open>Sample states\<close>

definition empty_store :: redis where
  "empty_store = \<lparr>hashes = Map.empty, ttls = Map.empty, sets = (\<lambda>key. {}), published = []\<rparr>"

definition bob_online :: redis where
  "bob_online = setOnline 5 empty_store ''bob'' ''s2'' (Some [''username'' \<mapsto> ''bob''])"

definition empty_world :: world where
  "empty_world = \<lparr>connections = DAList.empty, thisServerId = ''server-1'', store = empty_store,
                   wire = [], closed = {}\<rparr>"

definition alice_data :: WebSocketData where
  "alice_data = \<lparr>userId = ''alice'', username = ''alice'', socketId = ''s1'',
                  serverId = ''server-1'', connectedAt = 1\<rparr>"

definition bob_data :: WebSocketData where
  "bob_data = \<lparr>userId = ''bob'', username = ''bob'', socketId = ''s2'',
                serverId = ''server-1'', connectedAt = 2\<rparr>"

definition alice_subscribed :: world where
  "alice_subscribed =
     subscribeToConversation (addConnection 1 empty_world ''s1'' alice_data (Some 1)) ''s1'' ''c1''"

definition both_subscribed :: world where
  "both_subscribed =
     subscribeToConversation (addConnection 2 alice_subscribed ''s2'' bob_data (Some 2)) ''s2'' ''c1''"

definition typing_msg :: WSMessage where
  "typing_msg = \<lparr>msgType = typing, payload = TypingPayload ''c1'' ''alice'' (Some True),
                  timestamp = 9\<rparr>"

definition bob_no_socket :: world where
  "bob_no_socket =
     subscribeToConversation (addConnection 2 empty_world ''s2'' bob_data None) ''s2'' ''c1''"

definition nameless_data :: WebSocketData where
  "nameless_data = \<lparr>userId = [], username = ''guest'', socketId = ''s3'',
                     serverId = ''server-1'', connectedAt = 3\<rparr>"

definition nameless_subscribed :: world where
  "nameless_subscribed =
     subscribeToConversation (addConnection 3 empty_world ''s3'' nameless_data (Some 3)) ''s3'' ''c1''"

definition mismatched :: world where
  "mismatched =
     subscribeToConversation
       (addConnection 2 (addConnection 1 empty_world ''s1'' alice_data (Some 1))
          ''s2'' (bob_data\<lparr>socketId := ''s1''\<rparr>) (Some 2))
       ''s2'' ''c1''"


text \<open>
  Sample frames. \<open>quoted t\<close> is \<open>t\<close> between double quotes, so the three texts are
  \<^verbatim>\<open>{"type":"hello"}\<close>, \<^verbatim>\<open>{"type":["ping"]}\<close> and \<^verbatim>\<open>{"type":{"toString":1}}\<close>.
  \<open>sample_parse\<close> gives what \<^verbatim>\<open>JSON.parse\<close> gives on these three texts, on \<^verbatim>\<open>{}\<close> and
  \<^verbatim>\<open>null\<close>, and on the text \<^verbatim>\<open>{\<close>, which does not decode; no other text is used.
\<close>

definition quoted :: "string \<Rightarrow> string" where
  "quoted t = CHR 0x22 # t @ [CHR 0x22]"

definition hello_text :: string where
  "hello_text = ''{'' @ quoted ''type'' @ '':'' @ quoted ''hello'' @ ''}''"

definition ping_array_text :: string where
  "ping_array_text = ''{'' @ quoted ''type'' @ '':['' @ quoted ''ping'' @ '']}''"

definition toString_text :: string where
  "toString_text = ''{'' @ quoted ''type'' @ '':{'' @ quoted ''toString'' @ '':1}}''"

definition sample_parse :: "string \<Rightarrow> frame option" where
  "sample_parse raw =
     (if raw = hello_text then Some (JsonValue (Some (JStr ''hello'')) None)
      else if raw = ping_array_text then Some (JsonValue (Some (JArr [JStr ''ping''])) None)
      else if raw = toString_text then
        Some (JsonValue (Some (JObj [(''toString'', JNum ''1'')])) None)
      else if raw = ''{}'' then Some (JsonValue None None)
      else if raw = ''null'' then Some JsonNull
      else None)"

section \<open>Properties\<close>

subsection \<open>Presence: the stale-disconnect guard\<close>

lemma bob_online_record:
  "hashes bob_online (presence_key ''bob'') =
     Some [''socketId'' \<mapsto> ''s2'', ''timestamp'' \<mapsto> String 5, ''username'' \<mapsto> ''bob'']"
  by (simp add: bob_online_def empty_store_def setOnline_def hmset_def expire_def sadd_def
      publishPresenceChange_def publish_def exists_key_def Let_def)

lemma bob_online_no_alice: "hashes bob_online (presence_key ''alice'') = None"
  by (simp add: bob_online_def empty_store_def setOnline_def hmset_def expire_def sadd_def
      publishPresenceChange_def publish_def exists_key_def Let_def presence_key_def)

text \<open>
  C4. When a presence record is stored for the user: if its \<^verbatim>\<open>socketId\<close> field is not the
  argument, \<open>setOffline\<close> returns the store as it was (nothing deleted, the online set
  and the published events unchanged); if it is the argument, the record is deleted, the
  user leaves the online set, and one \<open>offline\<close> presence-change event for the user is
  published after the earlier ones.
\<close>

theorem setOffline_guard:
  assumes "hashes r (presence_key uid) = Some h"
  shows "(h ''socketId'' \<noteq> Some sid \<longrightarrow> setOffline now r uid sid = r) \<and>
         (h ''socketId'' = Some sid \<longrightarrow>
            hashes (setOffline now r uid sid) (presence_key uid) = None \<and>
            \<not> isOnline (setOffline now r uid sid) uid \<and>
            uid \<notin> getOnlineUsers (setOffline now r uid sid) \<and>
            published (setOffline now r uid sid) =
              published r @
                [(''presence:changes'', PresenceChangeMsg (PresenceChange uid offline now None))])"
  using assms
  by (simp add: setOffline_def hgetall_def del_def srem_def publishPresenceChange_def
      publish_def isOnline_def exists_key_def getOnlineUsers_def smembers_def Let_def)

theorem setOffline_guard_witness:
  "hashes bob_online (presence_key ''bob'') =
     Some [''socketId'' \<mapsto> ''s2'', ''timestamp'' \<mapsto> String 5, ''username'' \<mapsto> ''bob''] \<and>
   setOffline 9 bob_online ''bob'' ''s1'' = bob_online \<and>
   hashes (setOffline 9 bob_online ''bob'' ''s2'') (presence_key ''bob'') = None \<and>
   \<not> isOnline (setOffline 9 bob_online ''bob'' ''s2'') ''bob'' \<and>
   ''bob'' \<notin> getOnlineUsers (setOffline 9 bob_online ''bob'' ''s2'') \<and>
   published (setOffline 9 bob_online ''bob'' ''s2'') =
     published bob_online @
       [(''presence:changes'', PresenceChangeMsg (PresenceChange ''bob'' offline 9 None))]"
  using setOffline_guard [OF bob_online_record, of "''s1''" 9]
        setOffline_guard [OF bob_online_record, of "''s2''" 9]
        bob_online_record
  by simp

text \<open>
  C9. When no presence record is stored for the user, \<open>setOffline\<close> returns the store as
  it was, whatever the socket id: nothing is deleted, the online set is unchanged and
  nothing is published.
\<close>

theorem setOffline_absent:
  "hashes r (presence_key uid) = None \<Longrightarrow> setOffline now r uid sid = r"
  by (simp add: setOffline_def hgetall_def Let_def)

theorem setOffline_absent_witness:
  "hashes bob_online (presence_key ''alice'') = None \<and>
   setOffline 9 bob_online ''alice'' ''s2'' = bob_online"
  using setOffline_absent [OF bob_online_no_alice, of 9 "''s2''"] bob_online_no_alice
  by simp

subsection \<open>The connection count\<close>

lemma count_is_card_keys: "getConnectionCount w = card (registry_keys w)"
proof -
  have "distinct (map fst (DAList.impl_of (connections w)))" by simp
  then have "card (set (map fst (DAList.impl_of (connections w)))) =
             length (map fst (DAList.impl_of (connections w)))"
    by (rule distinct_card)
  then show ?thesis by (simp add: getConnectionCount_def registry_keys_def)
qed

lemma lookup_None_iff: "DAList.lookup (connections w) sid = None \<longleftrightarrow> sid \<notin> registry_keys w"
  by (simp add: registry_keys_def DAList.lookup.rep_eq map_of_eq_None_iff)

lemma keys_addConnection:
  "registry_keys (addConnection now w sid d sock) = insert sid (registry_keys w)"
  by (simp add: addConnection_def registry_keys_def Let_def DAList.update.rep_eq dom_update)

lemma keys_removeConnection:
  "registry_keys (removeConnection now w sid) = registry_keys w - {sid}"
proof (cases "DAList.lookup (connections w) sid")
  case None
  then have "sid \<notin> registry_keys w" by (simp add: lookup_None_iff)
  with None show ?thesis by (simp add: removeConnection_def)
next
  case (Some c)
  have "set (map fst (AList.delete sid (DAList.impl_of (connections w)))) =
        set (map fst (DAList.impl_of (connections w))) - {sid}"
    by (simp add: delete_keys)
  with Some show ?thesis
    by (simp add: removeConnection_def registry_keys_def Let_def DAList.delete.rep_eq)
qed

lemma keys_run_calls:
  "registry_keys (run_calls now w calls) = spec_registered (registry_keys w) calls"
  unfolding run_calls_def
proof (induction calls arbitrary: w)
  case Nil
  show ?case by simp
next
  case (Cons c calls)
  show ?case by (cases c) (simp_all add: Cons.IH keys_addConnection keys_removeConnection)
qed

text \<open>
  C8. After any sequence of \<open>addConnection\<close> and \<open>removeConnection\<close> calls, from any
  registry, \<open>getConnectionCount\<close> is the number of socket ids that are registered and not
  yet deregistered: a socket id registered twice counts once. Removing a socket id that is
  not registered returns the state it was given.
\<close>

theorem connection_count_tracks_calls:
  "getConnectionCount (run_calls now w calls) = card (spec_registered (registry_keys w) calls) \<and>
   (getConnection w sid = None \<longrightarrow> removeConnection now w sid = w)"
  by (simp add: count_is_card_keys keys_run_calls getConnection_def removeConnection_def)

theorem connection_count_tracks_calls_witness:
  "getConnectionCount
     (run_calls 9 empty_world
        [Register ''s1'' alice_data (Some 1), Register ''s2'' bob_data (Some 2),
         Register ''s2'' bob_data (Some 3), Deregister ''s1'', Deregister ''s7'']) = 1 \<and>
   getConnection empty_world ''s1'' = None \<and>
   removeConnection 9 empty_world ''s1'' = empty_world"
proof -
  have keys: "registry_keys empty_world = {}"
    by (simp add: registry_keys_def empty_world_def DAList.empty.rep_eq)
  have absent: "getConnection empty_world ''s1'' = None"
    by (simp add: getConnection_def empty_world_def)
  show ?thesis
    using connection_count_tracks_calls [of 9 empty_world
            "[Register ''s1'' alice_data (Some 1), Register ''s2'' bob_data (Some 2),
              Register ''s2'' bob_data (Some 3), Deregister ''s1'', Deregister ''s7'']" "''s1''"]
          absent
    by (simp add: keys)
qed

subsection \<open>The sample registries\<close>

lemma update_present: "DAList.lookup al k = Some v \<Longrightarrow> DAList.update k v al = al"
  by transfer (simp add: update_triv)

lemmas registry_eval =
  DAList.update.rep_eq DAList.empty.rep_eq DAList.lookup.rep_eq DAList.delete.rep_eq

lemma connections_alice_subscribed:
  "DAList.impl_of (connections alice_subscribed) =
     [(''s1'', \<lparr>data = alice_data, subscriptions = {''c1''}, socket = Some 1\<rparr>)]"
  by (simp add: alice_subscribed_def subscribeToConversation_def addConnection_def
      empty_world_def Let_def registry_eval)

lemma connections_both_subscribed:
  "DAList.impl_of (connections both_subscribed) =
     [(''s1'', \<lparr>data = alice_data, subscriptions = {''c1''}, socket = Some 1\<rparr>),
      (''s2'', \<lparr>data = bob_data, subscriptions = {''c1''}, socket = Some 2\<rparr>)]"
  by (simp add: both_subscribed_def subscribeToConversation_def addConnection_def
      Let_def registry_eval connections_alice_subscribed)

lemma getConnection_alice_subscribed:
  "getConnection alice_subscribed ''s1'' =
     Some \<lparr>data = alice_data, subscriptions = {''c1''}, socket = Some 1\<rparr>"
  by (simp add: getConnection_def DAList.lookup.rep_eq connections_alice_subscribed)

lemma getConnection_empty_world: "getConnection empty_world sid = None"
  by (simp add: getConnection_def empty_world_def)

subsection \<open>Subscribe, then unsubscribe\<close>

text \<open>
  C3, as the code has it. Subscribing a socket to a conversation and then unsubscribing it
  leaves the conversation unsubscribed and touches nothing else: when the socket is not
  registered, or the conversation was not in its subscription set, the registry is as it
  was before the subscribe; when the conversation was already subscribed, the subscription
  set is the earlier one without that conversation. Every other connection is unchanged.
\<close>

theorem subscribe_unsubscribe_removes:
  "(getConnection w sid = None \<longrightarrow>
      unsubscribeFromConversation (subscribeToConversation w sid cid) sid cid = w) \<and>
   (\<forall>c. getConnection w sid = Some c \<longrightarrow>
      getConnection (unsubscribeFromConversation (subscribeToConversation w sid cid) sid cid) sid =
        Some (c\<lparr>subscriptions := subscriptions c - {cid}\<rparr>) \<and>
      (cid \<notin> subscriptions c \<longrightarrow>
         unsubscribeFromConversation (subscribeToConversation w sid cid) sid cid = w)) \<and>
   (\<forall>sid'. sid' \<noteq> sid \<longrightarrow>
      getConnection (unsubscribeFromConversation (subscribeToConversation w sid cid) sid cid) sid' =
        getConnection w sid')"
proof (cases "DAList.lookup (connections w) sid")
  case None
  then show ?thesis
    by (simp add: unsubscribeFromConversation_def subscribeToConversation_def getConnection_def)
next
  case (Some c)
  have same: "cid \<notin> subscriptions c \<Longrightarrow>
      DAList.update sid (c\<lparr>subscriptions := subscriptions c - {cid}\<rparr>) (connections w) = connections w"
    using Some by (simp add: update_present)
  from Some same show ?thesis
    by (simp add: unsubscribeFromConversation_def subscribeToConversation_def getConnection_def)
qed

theorem subscribe_unsubscribe_removes_witness:
  "getConnection alice_subscribed ''s1'' =
     Some \<lparr>data = alice_data, subscriptions = {''c1''}, socket = Some 1\<rparr> \<and>
   unsubscribeFromConversation (subscribeToConversation alice_subscribed ''s1'' ''c2'')
     ''s1'' ''c2'' = alice_subscribed \<and>
   getConnection empty_world ''s1'' = None \<and>
   unsubscribeFromConversation (subscribeToConversation empty_world ''s1'' ''c1'')
     ''s1'' ''c1'' = empty_world"
  using subscribe_unsubscribe_removes [of alice_subscribed "''s1''" "''c2''"]
        subscribe_unsubscribe_removes [of empty_world "''s1''" "''c1''"]
        getConnection_alice_subscribed getConnection_empty_world
  by simp

text \<open>
  The round trip does not restore a subscription that was there before: socket \<open>s1\<close> is
  subscribed to \<open>c1\<close>, and after subscribing it to \<open>c1\<close> again and unsubscribing it, its
  subscription set is empty.
\<close>

theorem subscribe_unsubscribe_counterexample:
  "map_option subscriptions (getConnection alice_subscribed ''s1'') = Some {''c1''} \<and>
   map_option subscriptions
     (getConnection
        (unsubscribeFromConversation (subscribeToConversation alice_subscribed ''s1'' ''c1'')
           ''s1'' ''c1'') ''s1'') = Some {}"
  by (simp add: unsubscribeFromConversation_def subscribeToConversation_def getConnection_def
      DAList.lookup.rep_eq connections_alice_subscribed DAList.update.rep_eq)

subsection \<open>Registering a connection\<close>

text \<open>
  C5, as the code has it. \<open>addConnection\<close> never refuses a socket id. Afterwards the socket
  id maps to the new connection with an empty subscription set and every other socket id
  maps to what it did before; a socket id that was absent adds one to the count of
  connections, and a socket id that was present keeps the count: the earlier connection
  is replaced.
\<close>

theorem addConnection_replaces:
  "getConnection (addConnection now w sid d sock) sid =
     Some \<lparr>data = d, subscriptions = {}, socket = sock\<rparr> \<and>
   (\<forall>sid'. sid' \<noteq> sid \<longrightarrow>
      getConnection (addConnection now w sid d sock) sid' = getConnection w sid') \<and>
   (getConnection w sid = None \<longrightarrow>
      getConnectionCount (addConnection now w sid d sock) = getConnectionCount w + 1) \<and>
   (getConnection w sid \<noteq> None \<longrightarrow>
      getConnectionCount (addConnection now w sid d sock) = getConnectionCount w)"
proof -
  have look: "\<And>k. getConnection (addConnection now w sid d sock) k =
      (if k = sid then Some \<lparr>data = d, subscriptions = {}, socket = sock\<rparr> else getConnection w k)"
    by (auto simp add: getConnection_def addConnection_def Let_def DAList.lookup_update)
  have keys: "getConnectionCount (addConnection now w sid d sock) =
      card (insert sid (registry_keys w))"
    by (simp add: count_is_card_keys keys_addConnection)
  have fin: "finite (registry_keys w)"
    by (simp add: registry_keys_def)
  have absent: "getConnection w sid = None \<Longrightarrow>
      getConnectionCount (addConnection now w sid d sock) = getConnectionCount w + 1"
    using keys fin by (simp add: getConnection_def lookup_None_iff count_is_card_keys)
  have present: "getConnection w sid \<noteq> None \<Longrightarrow>
      getConnectionCount (addConnection now w sid d sock) = getConnectionCount w"
    using keys by (simp add: getConnection_def lookup_None_iff count_is_card_keys insert_absorb)
  from look absent present show ?thesis by simp
qed

theorem addConnection_replaces_witness:
  "getConnection empty_world ''s1'' = None \<and>
   getConnection (addConnection 1 empty_world ''s1'' alice_data (Some 1)) ''s1'' =
     Some \<lparr>data = alice_data, subscriptions = {}, socket = Some 1\<rparr> \<and>
   getConnectionCount (addConnection 1 empty_world ''s1'' alice_data (Some 1)) =
     getConnectionCount empty_world + 1 \<and>
   getConnection alice_subscribed ''s1'' \<noteq> None \<and>
   getConnection (addConnection 7 alice_subscribed ''s1'' bob_data (Some 2)) ''s2'' =
     getConnection alice_subscribed ''s2'' \<and>
   getConnectionCount (addConnection 7 alice_subscribed ''s1'' bob_data (Some 2)) =
     getConnectionCount alice_subscribed"
  using addConnection_replaces [of 1 empty_world "''s1''" alice_data "Some 1"]
        addConnection_replaces [of 7 alice_subscribed "''s1''" bob_data "Some 2"]
        getConnection_alice_subscribed getConnection_empty_world
  by simp

text \<open>
  A duplicate socket id is not refused: \<open>s1\<close> holds the connection of \<open>alice\<close>, subscribed to
  \<open>c1\<close>, and registering \<open>s1\<close> again puts the new connection in its place.
\<close>

theorem addConnection_duplicate_counterexample:
  "getConnection alice_subscribed ''s1'' =
     Some \<lparr>data = alice_data, subscriptions = {''c1''}, socket = Some 1\<rparr> \<and>
   getConnection (addConnection 7 alice_subscribed ''s1'' bob_data (Some 2)) ''s1'' =
     Some \<lparr>data = bob_data, subscriptions = {}, socket = Some 2\<rparr>"
  by (simp add: getConnection_alice_subscribed)
     (simp add: getConnection_def addConnection_def Let_def)

subsection \<open>Sending never changes the registry\<close>

lemma sendToSocket_connections [simp]: "connections (snd (sendToSocket w sid m)) = connections w"
  by (simp add: sendToSocket_def split: option.splits)

lemma fold_sendToSocket_connections:
  "connections (fold (\<lambda>subscriber w'. snd (sendToSocket w' (f subscriber) m)) subs w) =
     connections w"
  by (induction subs arbitrary: w) simp_all

lemma fold_counting_connections:
  "connections (snd (fold (\<lambda>subscriber (sent, w').
       if excluded ex (userId (data subscriber)) then (sent, w')
       else (case sendToSocket w' (socketId (data subscriber)) m of
               (True, w'') \<Rightarrow> (sent + 1, w'')
             | (False, w'') \<Rightarrow> (sent, w''))) subs (n, w))) = connections w"
proof (induction subs arbitrary: n w)
  case Nil
  show ?case by simp
next
  case (Cons s subs)
  obtain ok w1 where step: "sendToSocket w (socketId (data s)) m = (ok, w1)"
    by (cases "sendToSocket w (socketId (data s)) m")
  then have "connections w1 = connections w"
    using sendToSocket_connections [of w "socketId (data s)" m] by simp
  with step show ?case
    by (cases ok) (simp_all add: Cons.IH)
qed

text \<open>
  C10. \<open>sendToSocket\<close>, \<open>sendToConversation\<close>, \<open>broadcastNewMessage\<close> and
  \<open>broadcastNewReaction\<close> return the registry they were given: the same connections under
  the same socket ids with the same subscription sets, whether each send wrote its frame,
  found no socket handle or threw.
\<close>

theorem sends_keep_registry:
  "connections (snd (sendToSocket w sid m)) = connections w \<and>
   connections (snd (sendToConversation w cid m ex)) = connections w \<and>
   connections (broadcastNewMessage now w cid msg) = connections w \<and>
   connections (broadcastNewReaction now w cid mid reaction) = connections w"
  by (simp add: sendToConversation_def broadcastNewMessage_def broadcastNewReaction_def
      Let_def fold_sendToSocket_connections fold_counting_connections)

subsection \<open>Relaying presence changes\<close>

lemma fold_skip: "fold (\<lambda>connection w'. w') cs w = w"
  by (induction cs) simp_all

lemma broadcast_sends_nothing: "broadcast w m = w"
  by (simp add: broadcast_def fold_skip)

text \<open>
  C6. The presence-change callback builds the presence message and hands it to
  \<open>broadcast\<close>, whose loop body is empty: with two open connections registered, a
  presence change for \<open>carol\<close> puts no frame on any socket.
\<close>

theorem presence_change_not_relayed:
  "getConnectionCount both_subscribed = 2 \<and>
   closed both_subscribed = {} \<and>
   wire (on_presence_change 9 both_subscribed (PresenceChange ''carol'' online 8 None)) =
     wire both_subscribed"
  by (simp add: on_presence_change_def broadcast_sends_nothing getConnectionCount_def
      connections_both_subscribed)
     (simp add: both_subscribed_def alice_subscribed_def subscribeToConversation_def
      addConnection_def empty_world_def Let_def split: option.splits)

subsection \<open>The gateway keeps every connection under its own socket id\<close>

lemma set_alist_update: "set (AList.update k v al) \<subseteq> insert (k, v) (set al)"
  by (induction al) auto

lemma keys_match_same: "connections w' = connections w \<Longrightarrow> keys_match w' = keys_match w"
  by (simp add: keys_match_def)

lemma keys_match_update:
  assumes "keys_match w" and "socketId (data c) = sid"
  shows "keys_match (w\<lparr>connections := DAList.update sid c (connections w)\<rparr>)"
  using assms set_alist_update [of sid c "DAList.impl_of (connections w)"]
  by (auto simp add: keys_match_def list_all_iff DAList.update.rep_eq)

lemma keys_match_lookup:
  assumes "keys_match w" and "DAList.lookup (connections w) sid = Some c"
  shows "socketId (data c) = sid"
proof -
  from assms(2) have "(sid, c) \<in> set (DAList.impl_of (connections w))"
    by (simp add: DAList.lookup.rep_eq)
  with assms(1) show ?thesis
    by (auto simp add: keys_match_def list_all_iff)
qed

lemma keys_match_empty_world: "keys_match empty_world"
  by (simp add: keys_match_def empty_world_def DAList.empty.rep_eq)

lemma keys_match_addConnection:
  "keys_match w \<Longrightarrow> socketId d = sid \<Longrightarrow> keys_match (addConnection now w sid d sock)"
  using keys_match_update [of w "\<lparr>data = d, subscriptions = {}, socket = sock\<rparr>" sid]
  by (simp add: addConnection_def Let_def keys_match_def)

lemma keys_match_removeConnection:
  "keys_match w \<Longrightarrow> keys_match (removeConnection now w sid)"
  by (auto simp add: removeConnection_def Let_def keys_match_def list_all_iff
      DAList.delete.rep_eq AList.delete_eq split: option.splits)

lemma keys_match_subscribe:
  "keys_match w \<Longrightarrow> keys_match (subscribeToConversation w sid cid)"
  using keys_match_lookup [of w sid]
  by (auto simp add: subscribeToConversation_def intro!: keys_match_update split: option.splits)

lemma keys_match_unsubscribe:
  "keys_match w \<Longrightarrow> keys_match (unsubscribeFromConversation w sid cid)"
  using keys_match_lookup [of w sid]
  by (auto simp add: unsubscribeFromConversation_def intro!: keys_match_update split: option.splits)

lemma keys_match_on_connect:
  "keys_match w \<Longrightarrow> keys_match (on_connect auth now w token sid sock)"
proof -
  assume w: "keys_match w"
  have add: "\<And>uid uname. keys_match (addConnection now w sid
      \<lparr>userId = uid, username = uname, socketId = sid, serverId = getServerId w,
       connectedAt = now\<rparr> (Some sock))"
    by (rule keys_match_addConnection [OF w]) simp
  have cl: "\<And>w'. keys_match (close w' sock) = keys_match w'"
    by (simp add: close_def keys_match_def)
  have wr: "\<And>w' m. keys_match (w'\<lparr>wire := m\<rparr>) = keys_match w'"
    by (simp add: keys_match_def)
  show ?thesis
    using w add
    by (auto simp add: on_connect_def Let_def sendMessage_def cl wr split: option.splits)
qed

lemma keys_match_on_close: "keys_match w \<Longrightarrow> keys_match (on_close now w sid)"
  by (simp add: on_close_def keys_match_removeConnection)

lemma keys_match_handle:
  assumes "keys_match w" and "handleWebSocketMessage now w sock msg d = Inr w'"
  shows "keys_match w'"
proof (cases msg)
  case JsonNull
  with assms(2) show ?thesis by simp
next
  case (JsonValue ty pl)
  have wr: "\<And>w0 m. keys_match (w0\<lparr>wire := m\<rparr>) = keys_match w0"
    by (simp add: keys_match_def)
  have st: "\<And>w0 r. keys_match (w0\<lparr>store := r\<rparr>) = keys_match w0"
    by (simp add: keys_match_def)
  have conv: "\<And>cid m ex. keys_match (snd (sendToConversation w cid m ex))"
    using assms(1) by (simp add: keys_match_def sendToConversation_def fold_counting_connections)
  from assms JsonValue show ?thesis
    by (auto simp add: sendMessage_def wr st conv keys_match_subscribe keys_match_unsubscribe
        Let_def split: if_splits option.splits sum.splits)
qed

lemma keys_match_on_message:
  assumes "keys_match w"
  shows "keys_match (on_message parse now w sock d raw)"
proof -
  have wr: "\<And>w0 m. keys_match (w0\<lparr>wire := m\<rparr>) = keys_match w0"
    by (simp add: keys_match_def)
  show ?thesis
    using assms keys_match_handle [OF assms]
    by (auto simp add: on_message_def Let_def sendMessage_def wr split: option.splits sum.splits)
qed

lemma reachable_keys_match: "reachable auth parse w \<Longrightarrow> keys_match w"
proof (induction rule: reachable.induct)
  case (start w)
  then show ?case by (simp add: keys_match_def DAList.empty.rep_eq)
next
  case (connect w now token sid sock)
  then show ?case by (simp add: keys_match_on_connect)
next
  case (frame w sid c sock now raw)
  then show ?case by (simp add: keys_match_on_message)
next
  case (closing w now sid)
  then show ?case by (simp add: keys_match_on_close)
next
  case (new_msg w now cid msg)
  then show ?case
    by (simp add: keys_match_def broadcastNewMessage_def fold_sendToSocket_connections)
next
  case (new_react w now cid mid reaction)
  then show ?case
    by (simp add: keys_match_def broadcastNewReaction_def fold_sendToSocket_connections)
next
  case (presence_change w now pc)
  then show ?case by (simp add: on_presence_change_def broadcast_sends_nothing)
qed

subsection \<open>Fan-out to a conversation\<close>

lemma frames_to_Nil [simp]: "frames_to m [] = []"
  by (simp add: frames_to_def)

lemma frames_to_Cons [simp]:
  "frames_to m (c # cs) = (case socket c of None \<Rightarrow> [] | Some s \<Rightarrow> [(s, m)]) @ frames_to m cs"
  by (simp add: frames_to_def split: option.splits)

lemma member_lookup:
  assumes "keys_match w" and "c \<in> set (getAllConnections w)"
  shows "DAList.lookup (connections w) (socketId (data c)) = Some c"
proof -
  from assms(2) obtain k where k: "(k, c) \<in> set (DAList.impl_of (connections w))"
    by (auto simp add: getAllConnections_def)
  with assms(1) have "socketId (data c) = k"
    by (auto simp add: keys_match_def list_all_iff)
  with k show ?thesis
    by (simp add: DAList.lookup.rep_eq)
qed

lemma sendToSocket_member:
  assumes "keys_match w" and "c \<in> set (getAllConnections w)"
    and "connections w' = connections w" and "closed w' = closed w"
  shows "sendToSocket w' (socketId (data c)) m =
           (deliverable w c, w'\<lparr>wire := wire w' @ frames_to m (filter (deliverable w) [c])\<rparr>)"
  using member_lookup [OF assms(1,2)] assms(3,4)
  by (simp add: sendToSocket_def deliverable_def split: option.splits)

lemma counting_loop:
  assumes "keys_match w" and "set cs \<subseteq> set (getAllConnections w)"
    and "connections w' = connections w" and "closed w' = closed w"
  shows "fold (\<lambda>subscriber (sent, w').
             if excluded ex (userId (data subscriber)) then (sent, w')
             else (case sendToSocket w' (socketId (data subscriber)) m of
                     (True, w'') \<Rightarrow> (sent + 1, w'')
                   | (False, w'') \<Rightarrow> (sent, w''))) cs (n, w') =
         (n + length (filter (\<lambda>c. \<not> excluded ex (userId (data c)) \<and> deliverable w c) cs),
          w'\<lparr>wire := wire w' @
                frames_to m (filter (\<lambda>c. \<not> excluded ex (userId (data c)) \<and> deliverable w c) cs)\<rparr>)"
  using assms(2-4)
proof (induction cs arbitrary: n w')
  case Nil
  show ?case by simp
next
  case (Cons c cs)
  from Cons.prems have mem: "c \<in> set (getAllConnections w)" and sub: "set cs \<subseteq> set (getAllConnections w)"
    by simp_all
  note step = sendToSocket_member [OF assms(1) mem Cons.prems(2,3), of m]
  show ?case
  proof (cases "excluded ex (userId (data c))")
    case True
    then show ?thesis
      using Cons.IH [OF sub Cons.prems(2,3)] by simp
  next
    case False
    show ?thesis
    proof (cases "deliverable w c")
      case True
      then obtain s where s: "socket c = Some s"
        by (auto simp add: deliverable_def split: option.splits)
      from True False s show ?thesis
        using step Cons.IH [of "w'\<lparr>wire := wire w' @ [(s, m)]\<rparr>" "n + 1"] sub Cons.prems(2,3)
        by simp
    next
      case undeliverable: False
      with False show ?thesis
        using step Cons.IH [OF sub Cons.prems(2,3)] by simp
    qed
  qed
qed


lemma subscribers_subset: "set (getConversationSubscribers w cid) \<subseteq> set (getAllConnections w)"
  by (auto simp add: getConversationSubscribers_def)

lemma distinct_connections:
  assumes "keys_match w"
  shows "distinct (getAllConnections w)"
proof -
  have "map (\<lambda>c. socketId (data c)) (getAllConnections w) = map fst (DAList.impl_of (connections w))"
    using assms by (auto simp add: keys_match_def getAllConnections_def list_all_iff)
  moreover have "distinct (map fst (DAList.impl_of (connections w)))" by simp
  ultimately have "distinct (map (\<lambda>c. socketId (data c)) (getAllConnections w))" by simp
  then show ?thesis by (rule distinct_map [THEN iffD1, THEN conjunct1])
qed

lemma count_list_distinct: "distinct xs \<Longrightarrow> x \<in> set xs \<Longrightarrow> count_list xs x = 1"
  by (induction xs) auto

lemma excluded_Some: "u \<noteq> [] \<Longrightarrow> excluded (Some u) uid = (uid = u)"
  by (simp add: excluded_def)

lemma sendToConversation_run:
  assumes "keys_match w" and "u \<noteq> []"
  shows "sendToConversation w cid m (Some u) =
           (length (recipients w cid u), w\<lparr>wire := wire w @ frames_to m (recipients w cid u)\<rparr>)"
proof -
  have "sendToConversation w cid m (Some u) =
     (0 + length (filter (\<lambda>c. \<not> excluded (Some u) (userId (data c)) \<and> deliverable w c)
                    (getConversationSubscribers w cid)),
      w\<lparr>wire := wire w @
            frames_to m (filter (\<lambda>c. \<not> excluded (Some u) (userId (data c)) \<and> deliverable w c)
                           (getConversationSubscribers w cid))\<rparr>)"
    unfolding sendToConversation_def Let_def
    by (rule counting_loop [OF assms(1) subscribers_subset refl refl])
  then show ?thesis
    by (simp only: recipients_def excluded_Some [OF assms(2)] add_0)
qed


lemma recipients_distinct: "keys_match w \<Longrightarrow> distinct (recipients w cid u)"
  using distinct_connections [of w]
  by (simp add: recipients_def getConversationSubscribers_def)

lemma recipients_member:
  "c \<in> set (recipients w cid u) \<longleftrightarrow>
     c \<in> set (getAllConnections w) \<and> cid \<in> subscriptions c \<and> userId (data c) \<noteq> u \<and>
     deliverable w c"
  by (auto simp add: recipients_def getConversationSubscribers_def)

lemma connections_bob_no_socket:
  "DAList.impl_of (connections bob_no_socket) =
     [(''s2'', \<lparr>data = bob_data, subscriptions = {''c1''}, socket = None\<rparr>)]"
  by (simp add: bob_no_socket_def subscribeToConversation_def addConnection_def
      empty_world_def Let_def registry_eval)

lemma connections_nameless_subscribed:
  "DAList.impl_of (connections nameless_subscribed) =
     [(''s3'', \<lparr>data = nameless_data, subscriptions = {''c1''}, socket = Some 3\<rparr>)]"
  by (simp add: nameless_subscribed_def subscribeToConversation_def addConnection_def
      empty_world_def Let_def registry_eval)

lemma connections_mismatched:
  "DAList.impl_of (connections mismatched) =
     [(''s1'', \<lparr>data = alice_data, subscriptions = {}, socket = Some 1\<rparr>),
      (''s2'', \<lparr>data = bob_data\<lparr>socketId := ''s1''\<rparr>, subscriptions = {''c1''}, socket = Some 2\<rparr>)]"
  by (simp add: mismatched_def subscribeToConversation_def addConnection_def
      empty_world_def Let_def registry_eval)

lemma closed_both_subscribed: "closed both_subscribed = {}"
  by (simp add: both_subscribed_def alice_subscribed_def subscribeToConversation_def
      addConnection_def empty_world_def Let_def split: option.splits)

lemma keys_match_both_subscribed: "keys_match both_subscribed"
  by (simp add: keys_match_def connections_both_subscribed alice_data_def bob_data_def)

lemma recipients_both_subscribed:
  "recipients both_subscribed ''c1'' ''alice'' =
     [\<lparr>data = bob_data, subscriptions = {''c1''}, socket = Some 2\<rparr>]"
  by (simp add: recipients_def getConversationSubscribers_def getAllConnections_def
      connections_both_subscribed deliverable_def closed_both_subscribed alice_data_def bob_data_def)

text \<open>
  C1, as the code has it. In a registry that keeps every connection under its own socket
  id, and for a non-empty excluded user id \<open>u\<close>, \<open>sendToConversation\<close> writes the event once
  on the socket of every subscriber of the conversation that is not a connection of \<open>u\<close> and
  has an open socket handle, in registry order, writes nothing else, and returns the number
  of frames written. So a connection of \<open>u\<close> gets no frame, every other deliverable
  subscriber gets exactly one, and a connection that is not subscribed, has no socket
  handle or whose socket is closed gets none.
\<close>

theorem sendToConversation_excludes:
  assumes "keys_match w" and "u \<noteq> []"
  shows "sendToConversation w cid m (Some u) =
           (length (recipients w cid u), w\<lparr>wire := wire w @ frames_to m (recipients w cid u)\<rparr>) \<and>
         (\<forall>c \<in> set (getAllConnections w).
            userId (data c) = u \<longrightarrow> count_list (recipients w cid u) c = 0) \<and>
         (\<forall>c \<in> set (getAllConnections w).
            userId (data c) \<noteq> u \<and> cid \<in> subscriptions c \<and> deliverable w c \<longrightarrow>
              count_list (recipients w cid u) c = 1) \<and>
         (\<forall>c \<in> set (getAllConnections w).
            cid \<notin> subscriptions c \<or> \<not> deliverable w c \<longrightarrow>
              count_list (recipients w cid u) c = 0)"
proof (intro conjI ballI impI)
  show "sendToConversation w cid m (Some u) =
          (length (recipients w cid u), w\<lparr>wire := wire w @ frames_to m (recipients w cid u)\<rparr>)"
    by (rule sendToConversation_run [OF assms])
next
  fix c :: ConnectedSocket
  assume "userId (data c) = u"
  then show "count_list (recipients w cid u) c = 0"
    by (simp add: count_list_0_iff recipients_member)
next
  fix c :: ConnectedSocket
  assume "c \<in> set (getAllConnections w)"
    and "userId (data c) \<noteq> u \<and> cid \<in> subscriptions c \<and> deliverable w c"
  then have "c \<in> set (recipients w cid u)"
    by (simp add: recipients_member)
  with recipients_distinct [OF assms(1)] show "count_list (recipients w cid u) c = 1"
    by (rule count_list_distinct)
next
  fix c :: ConnectedSocket
  assume "cid \<notin> subscriptions c \<or> \<not> deliverable w c"
  then show "count_list (recipients w cid u) c = 0"
    by (auto simp add: count_list_0_iff recipients_member)
qed

theorem sendToConversation_excludes_witness:
  "keys_match both_subscribed \<and> ''alice'' \<noteq> [] \<and>
   sendToConversation both_subscribed ''c1'' typing_msg (Some ''alice'') =
     (1, both_subscribed\<lparr>wire := wire both_subscribed @ [(2, typing_msg)]\<rparr>) \<and>
   count_list (recipients both_subscribed ''c1'' ''alice'')
     \<lparr>data = alice_data, subscriptions = {''c1''}, socket = Some 1\<rparr> = 0 \<and>
   count_list (recipients both_subscribed ''c1'' ''alice'')
     \<lparr>data = bob_data, subscriptions = {''c1''}, socket = Some 2\<rparr> = 1"
proof -
  have u: "''alice'' \<noteq> []" by simp
  show ?thesis
    using sendToConversation_excludes [OF keys_match_both_subscribed u, of "''c1''" typing_msg]
          keys_match_both_subscribed
    by (simp add: recipients_both_subscribed)
qed

text \<open>
  Stated for every registry state and every \<open>u\<close>, C1 fails in three ways. A subscriber registered without a socket
  handle is not delivered to (\<open>bob_no_socket\<close>). An empty excluded user id excludes nobody,
  so the connection whose user id is empty is delivered to (\<open>nameless_subscribed\<close>). And
  when a connection is kept under a key that is not its own socket id, the frame meant for
  it goes to the connection kept under that socket id, here the one of the excluded user
  \<open>alice\<close> (\<open>mismatched\<close>).
\<close>

theorem sendToConversation_counterexample:
  "DAList.impl_of (connections bob_no_socket) =
     [(''s2'', \<lparr>data = bob_data, subscriptions = {''c1''}, socket = None\<rparr>)] \<and>
   sendToConversation bob_no_socket ''c1'' typing_msg (Some ''alice'') = (0, bob_no_socket) \<and>
   DAList.impl_of (connections nameless_subscribed) =
     [(''s3'', \<lparr>data = nameless_data, subscriptions = {''c1''}, socket = Some 3\<rparr>)] \<and>
   userId nameless_data = [] \<and>
   sendToConversation nameless_subscribed ''c1'' typing_msg (Some []) =
     (1, nameless_subscribed\<lparr>wire := wire nameless_subscribed @ [(3, typing_msg)]\<rparr>) \<and>
   DAList.impl_of (connections mismatched) =
     [(''s1'', \<lparr>data = alice_data, subscriptions = {}, socket = Some 1\<rparr>),
      (''s2'', \<lparr>data = bob_data\<lparr>socketId := ''s1''\<rparr>, subscriptions = {''c1''}, socket = Some 2\<rparr>)] \<and>
   userId alice_data = ''alice'' \<and>
   sendToConversation mismatched ''c1'' typing_msg (Some ''alice'') =
     (1, mismatched\<lparr>wire := wire mismatched @ [(1, typing_msg)]\<rparr>)"
proof -
  have a: "sendToConversation bob_no_socket ''c1'' typing_msg (Some ''alice'') = (0, bob_no_socket)"
    by (simp add: sendToConversation_def getConversationSubscribers_def getAllConnections_def
        connections_bob_no_socket excluded_def sendToSocket_def DAList.lookup.rep_eq bob_data_def)
  have closed3: "closed nameless_subscribed = {}"
    by (simp add: nameless_subscribed_def subscribeToConversation_def
        addConnection_def empty_world_def Let_def split: option.splits)
  have b: "sendToConversation nameless_subscribed ''c1'' typing_msg (Some []) =
     (1, nameless_subscribed\<lparr>wire := wire nameless_subscribed @ [(3, typing_msg)]\<rparr>)"
    by (simp add: sendToConversation_def getConversationSubscribers_def getAllConnections_def
        connections_nameless_subscribed excluded_def sendToSocket_def DAList.lookup.rep_eq
        nameless_data_def closed3)
  have closedm: "closed mismatched = {}"
    by (simp add: mismatched_def subscribeToConversation_def
        addConnection_def empty_world_def Let_def split: option.splits)
  have c: "sendToConversation mismatched ''c1'' typing_msg (Some ''alice'') =
     (1, mismatched\<lparr>wire := wire mismatched @ [(1, typing_msg)]\<rparr>)"
    by (simp add: sendToConversation_def getConversationSubscribers_def getAllConnections_def
        connections_mismatched excluded_def sendToSocket_def DAList.lookup.rep_eq
        alice_data_def bob_data_def closedm)
  show ?thesis
    using a b c connections_bob_no_socket connections_nameless_subscribed connections_mismatched
    by (simp add: nameless_data_def alice_data_def)
qed

subsection \<open>Broadcasting a new message or reaction\<close>




lemma wire_alice_subscribed: "wire alice_subscribed = []"
  by (simp add: alice_subscribed_def subscribeToConversation_def
      addConnection_def empty_world_def Let_def split: option.splits)



lemma wire_both_subscribed: "wire both_subscribed = []"
  by (simp add: both_subscribed_def subscribeToConversation_def addConnection_def
      wire_alice_subscribed Let_def split: option.splits)




subsection \<open>Malformed frames and unknown frame types\<close>

text \<open>
  C7. On an open socket, every frame that does not decode (or decodes to \<^verbatim>\<open>null\<close>) and
  every decoded frame whose type is not one of the strings \<open>ping\<close>, \<open>subscribe\<close>,
  \<open>unsubscribe\<close>, \<open>typing\<close> is answered with exactly one error frame carrying a code, and
  nothing else changes: the registry, the shared store and the set of closed sockets are as
  before, so the socket is still open. The code is \<open>MESSAGE_ERROR\<close> for a frame that does
  not decode, and for a type that cannot be turned into text; it is \<open>UNKNOWN_MESSAGE_TYPE\<close>,
  with the text of the type, for every other type, whether absent, a string or another
  value.
\<close>

theorem bad_frame_one_error:
  assumes "sock \<notin> closed w"
  shows "(parse raw = None \<or> parse raw = Some JsonNull \<longrightarrow>
            on_message parse now w sock d raw =
              w\<lparr>wire := wire w @
                   [(sock, \<lparr>msgType = error,
                            payload = ErrorPayload ''MESSAGE_ERROR'' ''Failed to process message'',
                            timestamp = now\<rparr>)]\<rparr>) \<and>
         (\<forall>ty pl t. parse raw = Some (JsonValue ty pl) \<and> ty \<notin> known_types \<and>
                    type_text ty = Inr t \<longrightarrow>
            on_message parse now w sock d raw =
              w\<lparr>wire := wire w @
                   [(sock, \<lparr>msgType = error,
                            payload = ErrorPayload ''UNKNOWN_MESSAGE_TYPE''
                                        (''Unknown message type: '' @ t),
                            timestamp = now\<rparr>)]\<rparr>) \<and>
         (\<forall>ty pl e. parse raw = Some (JsonValue ty pl) \<and> ty \<notin> known_types \<and>
                    type_text ty = Inl e \<longrightarrow>
            on_message parse now w sock d raw =
              w\<lparr>wire := wire w @
                   [(sock, \<lparr>msgType = error,
                            payload = ErrorPayload ''MESSAGE_ERROR'' ''Failed to process message'',
                            timestamp = now\<rparr>)]\<rparr>)"
  using assms
  by (auto simp add: on_message_def sendMessage_def known_types_def Let_def)

theorem bad_frame_one_error_witness:
  "1 \<notin> closed both_subscribed \<and>
   sample_parse ''{'' = None \<and>
   on_message sample_parse 9 both_subscribed 1 alice_data ''{'' =
     both_subscribed\<lparr>wire := wire both_subscribed @
        [(1, \<lparr>msgType = error,
              payload = ErrorPayload ''MESSAGE_ERROR'' ''Failed to process message'',
              timestamp = 9\<rparr>)]\<rparr> \<and>
   sample_parse hello_text = Some (JsonValue (Some (JStr ''hello'')) None) \<and>
   Some (JStr ''hello'') \<notin> known_types \<and>
   on_message sample_parse 9 both_subscribed 1 alice_data hello_text =
     both_subscribed\<lparr>wire := wire both_subscribed @
        [(1, \<lparr>msgType = error,
              payload = ErrorPayload ''UNKNOWN_MESSAGE_TYPE'' ''Unknown message type: hello'',
              timestamp = 9\<rparr>)]\<rparr> \<and>
   sample_parse ping_array_text = Some (JsonValue (Some (JArr [JStr ''ping''])) None) \<and>
   Some (JArr [JStr ''ping'']) \<notin> known_types \<and>
   on_message sample_parse 9 both_subscribed 1 alice_data ping_array_text =
     both_subscribed\<lparr>wire := wire both_subscribed @
        [(1, \<lparr>msgType = error,
              payload = ErrorPayload ''UNKNOWN_MESSAGE_TYPE'' ''Unknown message type: ping'',
              timestamp = 9\<rparr>)]\<rparr> \<and>
   sample_parse toString_text =
     Some (JsonValue (Some (JObj [(''toString'', JNum ''1'')])) None) \<and>
   Some (JObj [(''toString'', JNum ''1'')]) \<notin> known_types \<and>
   on_message sample_parse 9 both_subscribed 1 alice_data toString_text =
     both_subscribed\<lparr>wire := wire both_subscribed @
        [(1, \<lparr>msgType = error,
              payload = ErrorPayload ''MESSAGE_ERROR'' ''Failed to process message'',
              timestamp = 9\<rparr>)]\<rparr> \<and>
   sample_parse ''{}'' = Some (JsonValue None None) \<and>
   None \<notin> known_types \<and>
   on_message sample_parse 9 both_subscribed 1 alice_data ''{}'' =
     both_subscribed\<lparr>wire := wire both_subscribed @
        [(1, \<lparr>msgType = error,
              payload = ErrorPayload ''UNKNOWN_MESSAGE_TYPE'' ''Unknown message type: undefined'',
              timestamp = 9\<rparr>)]\<rparr>"
proof -
  note texts = hello_text_def ping_array_text_def toString_text_def quoted_def
  have open1: "1 \<notin> closed both_subscribed"
    by (simp add: closed_both_subscribed)
  have p1: "sample_parse ''{'' = None"
    by (simp add: sample_parse_def texts)
  have p2: "sample_parse hello_text = Some (JsonValue (Some (JStr ''hello'')) None)"
    by (simp add: sample_parse_def)
  have p3: "sample_parse ping_array_text = Some (JsonValue (Some (JArr [JStr ''ping''])) None)"
    by (simp add: sample_parse_def texts)
  have p4: "sample_parse toString_text =
      Some (JsonValue (Some (JObj [(''toString'', JNum ''1'')])) None)"
    by (simp add: sample_parse_def texts)
  have p5: "sample_parse ''{}'' = Some (JsonValue None None)"
    by (simp add: sample_parse_def texts)
  have k: "Some (JStr ''hello'') \<notin> known_types" "Some (JArr [JStr ''ping'']) \<notin> known_types"
    "Some (JObj [(''toString'', JNum ''1'')]) \<notin> known_types" "None \<notin> known_types"
    by (simp_all add: known_types_def)
  have t: "type_text (Some (JStr ''hello'')) = Inr ''hello''"
    "type_text (Some (JArr [JStr ''ping''])) = Inr ''ping''"
    "type_text (Some (JObj [(''toString'', JNum ''1'')])) = Inl TypeError"
    "type_text None = Inr ''undefined''"
    by (simp_all add: type_text_def)
  show ?thesis
    using bad_frame_one_error [OF open1, of sample_parse "''{''" 9 alice_data]
          bad_frame_one_error [OF open1, of sample_parse hello_text 9 alice_data]
          bad_frame_one_error [OF open1, of sample_parse ping_array_text 9 alice_data]
          bad_frame_one_error [OF open1, of sample_parse toString_text 9 alice_data]
          bad_frame_one_error [OF open1, of sample_parse "''{}''" 9 alice_data]
          open1 p1 p2 p3 p4 p5 k t
    by simp
qed

end
